theory Spec2Isabelle
  imports Main
begin

section \<open>Data model\<close>

text \<open>
  The authentication core of \<^verbatim>\<open>backend/src/auth/auth.service.ts\<close> (class
  \<^verbatim>\<open>AuthService\<close>) is embedded as pure functions over an explicit store. Rows of
  the credential store are records; the fields are the ones the service reads or writes.
\<close>

datatype user_status = ACTIVE | INACTIVE | SUSPENDED

record permission =
  permission_id :: string
  key :: string

record role_permission =
  permission :: permission

record role =
  role_id :: string
  role_name :: string
  rolePermissions :: "role_permission list"

record user =
  user_id :: string
  user_email :: string
  user_name :: string
  passwordHash :: string
  roleId :: string
  status :: user_status
  lastLoginAt :: "nat option"
  passwordResetToken :: "string option"
  passwordResetExpires :: "nat option"

text \<open>
  A user loaded with \<^verbatim>\<open>include: { role: { include: { rolePermissions: ... } } }\<close>:
  the row together with its role, when the role row exists.
\<close>

type_synonym loaded_user = "user \<times> role option"

datatype security_event =
    REGISTER_SUCCESS | REGISTER_FAILED | LOGIN_SUCCESS | LOGIN_FAILED | LOGOUT
  | PASSWORD_CHANGE | PASSWORD_RESET_REQUEST | PASSWORD_RESET_SUCCESS

record security_log =
  userId :: "string option"
  event :: security_event
  email :: "string option"
  ipAddress :: "string option"
  userAgent :: "string option"
  success :: bool
  errorMessage :: "string option"
  metadata :: "string option"

record audit_log =
  entity :: string
  entityId :: string
  action :: string
  actorUserId :: string
  actorRole :: string
  afterData :: "(string \<times> string) list"
  audit_ipAddress :: "string option"
  audit_userAgent :: "string option"

text \<open>
  The state every operation threads: the tables of the store and the lines the
  service's own \<^verbatim>\<open>Logger\<close> has written with \<^verbatim>\<open>logger.error\<close>.
\<close>

record store =
  users :: "user list"
  roles :: "role list"
  securityLogs :: "security_log list"
  auditLogs :: "audit_log list"
  loggerErrors :: "string list"

text \<open>Which log writes the store rejects (a write that throws).\<close>

record faults =
  securityLogFails :: "security_log \<Rightarrow> bool"
  auditLogFails :: "audit_log \<Rightarrow> bool"

text \<open>
  The libraries the service calls: \<^verbatim>\<open>bcrypt.hash\<close>, \<^verbatim>\<open>bcrypt.compare\<close>, and
  the reading of a time span such as \<^verbatim>\<open>'15m'\<close> in milliseconds by the token library.
\<close>

record env =
  bcrypt_hash :: "string \<Rightarrow> nat \<Rightarrow> string"
  bcrypt_compare :: "string \<Rightarrow> string \<Rightarrow> bool"
  timespan :: "string \<Rightarrow> nat"

datatype prisma_error =
    UniqueConstraintViolation string
  | ForeignKeyConstraintViolation string

datatype error =
    ConflictException string
  | UnauthorizedException string
  | BadRequestException string
  | Error string
  | TypeError string
  | JsonWebTokenError string
  | PrismaError prisma_error

text \<open>
  \<^verbatim>\<open>error.message\<close>. For an error of the store the text stands in for the message
  of the store's client.
\<close>

fun error_message :: "error \<Rightarrow> string" where
  "error_message (ConflictException m) = m"
| "error_message (UnauthorizedException m) = m"
| "error_message (BadRequestException m) = m"
| "error_message (Error m) = m"
| "error_message (TypeError m) = m"
| "error_message (JsonWebTokenError m) = m"
| "error_message (PrismaError (UniqueConstraintViolation f)) =
     ''Unique constraint failed on the fields: '' @ f"
| "error_message (PrismaError (ForeignKeyConstraintViolation f)) =
     ''Foreign key constraint failed on the field: '' @ f"

fun instanceof_UnauthorizedException :: "error \<Rightarrow> bool" where
  "instanceof_UnauthorizedException (UnauthorizedException m) = True"
| "instanceof_UnauthorizedException e = False"

subsection \<open>Tokens\<close>

datatype jwt_payload =
    AccessClaims string string string "string list"
  | RefreshClaims string string


text \<open>
  A signed token, symbolically: the payload given to \<^verbatim>\<open>jwtService.sign\<close>, the secret
  and the \<^verbatim>\<open>expiresIn\<close> option it was signed with, and the time of signing.
\<close>

datatype jwt = Jwt (jwt_claims: jwt_payload) (jwt_secret: string) (jwt_expiresIn: string) (jwt_iat: nat)

record token_pair =
  tp_accessToken :: jwt
  tp_refreshToken :: jwt
  tp_expiresIn :: string


subsection \<open>Objects returned to callers\<close>

text \<open>
  The service builds its user responses by rest-destructuring, so which keys an object
  has matters: an object is a list of key/value pairs.
\<close>

datatype jsval =
    JNull
  | JString string
  | JDate nat
  | JArray "jsval list"
  | JObject "(string \<times> jsval) list"

type_synonym jsobject = "(string \<times> jsval) list"

definition has_key :: "string \<Rightarrow> jsobject \<Rightarrow> bool" where
  "has_key k obj = (k \<in> set (map fst obj))"

definition omit :: "string list \<Rightarrow> jsobject \<Rightarrow> jsobject" where
  "omit ks obj = filter (\<lambda>kv. fst kv \<notin> set ks) obj"

fun nullable :: "('a \<Rightarrow> jsval) \<Rightarrow> 'a option \<Rightarrow> jsval" where
  "nullable f None = JNull"
| "nullable f (Some x) = f x"

fun status_string :: "user_status \<Rightarrow> string" where
  "status_string ACTIVE = ''ACTIVE''"
| "status_string INACTIVE = ''INACTIVE''"
| "status_string SUSPENDED = ''SUSPENDED''"

definition permission_object :: "permission \<Rightarrow> jsval" where
  "permission_object p =
     JObject [(''id'', JString (permission_id p)), (''key'', JString (key p))]"

definition role_object :: "role \<Rightarrow> jsval" where
  "role_object r =
     JObject [(''id'', JString (role_id r)), (''name'', JString (role_name r)),
              (''rolePermissions'',
                 JArray (map (\<lambda>rp. JObject [(''permission'', permission_object (permission rp))])
                           (rolePermissions r)))]"

definition user_object :: "loaded_user \<Rightarrow> jsobject" where
  "user_object lu =
     (let u = fst lu in
      [(''id'', JString (user_id u)),
       (''email'', JString (user_email u)),
       (''name'', JString (user_name u)),
       (''passwordHash'', JString (passwordHash u)),
       (''roleId'', JString (roleId u)),
       (''status'', JString (status_string (status u))),
       (''lastLoginAt'', nullable JDate (lastLoginAt u)),
       (''passwordResetToken'', nullable JString (passwordResetToken u)),
       (''passwordResetExpires'', nullable JDate (passwordResetExpires u)),
       (''role'', nullable role_object (snd lu))])"

record auth_response =
  ar_user :: jsobject
  ar_tokens :: token_pair
  ar_message :: string

section \<open>Configuration and construction\<close>

record config =
  JWT_SECRET :: "string option"
  JWT_REFRESH_SECRET :: "string option"
  JWT_EXPIRES_IN :: "string option"
  JWT_REFRESH_EXPIRES_IN :: "string option"
  BCRYPT_ROUNDS :: "nat option"

text \<open>\<^verbatim>\<open>configService.get(key, default)\<close>: the default stands in for an absent key.\<close>

fun config_get :: "'a option \<Rightarrow> 'a \<Rightarrow> 'a" where
  "config_get None d = d"
| "config_get (Some v) d = v"

record auth_service =
  jwtSecret :: string
  jwtRefreshSecret :: string
  jwtExpiresIn :: string
  jwtRefreshExpiresIn :: string
  configService :: config

text \<open>JavaScript truthiness of an optional string: absent and empty are both falsy.\<close>

fun truthy :: "string option \<Rightarrow> bool" where
  "truthy None = False"
| "truthy (Some s) = (s \<noteq> [])"


section \<open>Store primitives\<close>

text \<open>
  Modelled from the spec: the Credential Store (the Prisma client and its schema, not
  part of the sources) is "a lookup/update interface" over user rows with "unique id,
  unique email (case-sensitive key)" where "one user has exactly one role". All the
  definitions of this section stand for it. Lookups return the first matching row; an
  update changes the rows with the given id; a create is refused with a uniqueness
  violation when the email or the id is taken and with a foreign-key violation when the
  role does not exist. Lookups and updates themselves do not fail here: the failures of
  the store that the model has are a refused create and a failed log write. The
  \<^verbatim>\<open>catch\<close> branch of \<^verbatim>\<open>logout\<close>, which only a failing lookup reaches, has
  therefore no counterpart below.
\<close>

definition user_findUnique_email :: "store \<Rightarrow> string \<Rightarrow> user option" where
  "user_findUnique_email st e = find (\<lambda>u. user_email u = e) (users st)"

definition user_findUnique_id :: "store \<Rightarrow> string \<Rightarrow> user option" where
  "user_findUnique_id st i = find (\<lambda>u. user_id u = i) (users st)"

definition role_findUnique_id :: "store \<Rightarrow> string \<Rightarrow> role option" where
  "role_findUnique_id st i = find (\<lambda>r. role_id r = i) (roles st)"

definition include_role :: "store \<Rightarrow> user \<Rightarrow> loaded_user" where
  "include_role st u = (u, role_findUnique_id st (roleId u))"

definition user_update :: "store \<Rightarrow> string \<Rightarrow> (user \<Rightarrow> user) \<Rightarrow> store" where
  "user_update st i g =
     st\<lparr>users := map (\<lambda>u. if user_id u = i then g u else u) (users st)\<rparr>"

definition user_create ::
  "store \<Rightarrow> string \<Rightarrow> string \<Rightarrow> string \<Rightarrow> string \<Rightarrow> string \<Rightarrow> error + (loaded_user \<times> store)" where
  "user_create st newId em nm hash rid =
     (if list_ex (\<lambda>u. user_email u = em) (users st)
      then Inl (PrismaError (UniqueConstraintViolation ''email''))
      else if list_ex (\<lambda>u. user_id u = newId) (users st)
      then Inl (PrismaError (UniqueConstraintViolation ''id''))
      else (case role_findUnique_id st rid of
              None \<Rightarrow> Inl (PrismaError (ForeignKeyConstraintViolation ''roleId''))
            | Some r \<Rightarrow>
                (let u = \<lparr> user_id = newId, user_email = em, user_name = nm,
                           passwordHash = hash, roleId = rid, status = ACTIVE,
                           lastLoginAt = None, passwordResetToken = None,
                           passwordResetExpires = None \<rparr>
                 in Inr ((u, Some r), st\<lparr>users := users st @ [u]\<rparr>))))"

text \<open>
  The \<^verbatim>\<open>where\<close> clause of \<^verbatim>\<open>resetPassword\<close>: the stored token equals the given one
  and the stored expiry is greater than the current time.
\<close>

definition reset_token_matches :: "string \<Rightarrow> nat \<Rightarrow> user \<Rightarrow> bool" where
  "reset_token_matches token now u =
     (passwordResetToken u = Some token \<and>
      (case passwordResetExpires u of None \<Rightarrow> False | Some e \<Rightarrow> now < e))"

definition user_findFirst_reset :: "store \<Rightarrow> string \<Rightarrow> nat \<Rightarrow> user option" where
  "user_findFirst_reset st token now = find (reset_token_matches token now) (users st)"

definition role_findFirst_name :: "store \<Rightarrow> string \<Rightarrow> role option" where
  "role_findFirst_name st n = find (\<lambda>r. role_name r = n) (roles st)"

section \<open>Private helpers of the service\<close>

text \<open>
  \<^verbatim>\<open>logSecurityEvent\<close>: the entry is written to the security log; a write that
  throws is caught and reported through \<^verbatim>\<open>logger.error\<close> only.
\<close>

definition security_entry ::
  "security_event \<Rightarrow> string option \<Rightarrow> string option \<Rightarrow> string option \<Rightarrow> string option \<Rightarrow>
   string option \<Rightarrow> security_log" where
  "security_entry ev uid em ip ua err =
     \<lparr> userId = uid, event = ev, email = em, ipAddress = ip, userAgent = ua,
       success = (\<not> truthy err), errorMessage = err,
       metadata = (if truthy err then err else None) \<rparr>"

definition logSecurityEvent ::
  "faults \<Rightarrow> security_event \<Rightarrow> string option \<Rightarrow> string option \<Rightarrow> string option \<Rightarrow>
   string option \<Rightarrow> string option \<Rightarrow> store \<Rightarrow> store" where
  "logSecurityEvent f ev uid em ip ua err st =
     (if securityLogFails f (security_entry ev uid em ip ua err)
      then st\<lparr>loggerErrors := loggerErrors st @ [''Failed to log security event:'']\<rparr>
      else st\<lparr>securityLogs := securityLogs st @ [security_entry ev uid em ip ua err]\<rparr>)"

text \<open>
  Modelled from the spec: \<^verbatim>\<open>AuditService.log\<close> (\<^verbatim>\<open>audit/audit.service.ts\<close>, not part
  of the sources). "Logging failures are fully contained (caught, logged, never
  rethrown)": a failed audit write leaves the audit trail as it was and returns
  normally. What the audit service reports through a logger of its own is not part of
  the state.
\<close>

definition auditService_log :: "faults \<Rightarrow> audit_log \<Rightarrow> store \<Rightarrow> store" where
  "auditService_log f entry st =
     (if auditLogFails f entry then st
      else st\<lparr>auditLogs := auditLogs st @ [entry]\<rparr>)"

definition permission_keys :: "role \<Rightarrow> string list" where
  "permission_keys r = map (\<lambda>rp. key (permission rp)) (rolePermissions r)"

text \<open>
  \<^verbatim>\<open>generateTokenPair\<close>: \<^verbatim>\<open>user.role.name\<close> on a user whose role is absent is a
  \<^verbatim>\<open>TypeError\<close>.
\<close>

definition generateTokenPair :: "auth_service \<Rightarrow> nat \<Rightarrow> loaded_user \<Rightarrow> error + token_pair" where
  "generateTokenPair svc now lu =
     (case snd lu of
        None \<Rightarrow> Inl (TypeError ''Cannot read properties of undefined'')
      | Some r \<Rightarrow>
          Inr \<lparr> tp_accessToken =
                  Jwt (AccessClaims (user_id (fst lu)) (user_email (fst lu)) (role_name r)
                         (permission_keys r))
                      (jwtSecret svc) (jwtExpiresIn svc) now,
                tp_refreshToken =
                  Jwt (RefreshClaims (user_id (fst lu)) ''refresh'')
                      (jwtRefreshSecret svc) (jwtRefreshExpiresIn svc) now,
                tp_expiresIn = jwtExpiresIn svc \<rparr>)"

text \<open>
  \<^verbatim>\<open>formatUserResponse\<close>: three keys are dropped by rest-destructuring and
  \<^verbatim>\<open>permissions\<close> is attached; \<^verbatim>\<open>user.role?.rolePermissions?.map(...) || []\<close>
  gives the empty list for an absent role.
\<close>

definition formatUserResponse :: "loaded_user \<Rightarrow> jsobject" where
  "formatUserResponse lu =
     omit [''passwordHash'', ''passwordResetToken'', ''passwordResetExpires''] (user_object lu)
     @ [(''permissions'',
         JArray (map JString (case snd lu of None \<Rightarrow> [] | Some r \<Rightarrow> permission_keys r)))]"

definition getDefaultRoleId :: "store \<Rightarrow> error + string" where
  "getDefaultRoleId st =
     (case role_findFirst_name st ''Subordinate'' of
        None \<Rightarrow> Inl (Error ''Default role not found'')
      | Some r \<Rightarrow> Inr (role_id r))"

text \<open>
  \<^verbatim>\<open>roleId || await this.getDefaultRoleId()\<close>: an absent or empty \<^verbatim>\<open>roleId\<close> is
  falsy, and only then is the default role looked up.
\<close>

fun resolve_roleId :: "string option \<Rightarrow> store \<Rightarrow> error + string" where
  "resolve_roleId None st = getDefaultRoleId st"
| "resolve_roleId (Some r) st = (if r = [] then getDefaultRoleId st else Inr r)"

section \<open>Public operations\<close>

record RegisterDto =
  reg_email :: string
  reg_password :: string
  reg_name :: string
  reg_roleId :: "string option"

record LoginDto =
  login_email :: string
  login_password :: string

text \<open>
  \<^verbatim>\<open>register\<close>. Every store call is awaited, so writes of other requests can land
  between the lookup by email and the create; \<open>others\<close> is what they do to the
  store at that point (the identity when the call runs alone). \<open>newId\<close> is the id
  the store gives the new row and \<open>now\<close> the clock at the time of signing. The body
  of the \<^verbatim>\<open>try\<close> comes first, the \<^verbatim>\<open>catch\<close> handler after it.
\<close>

definition register_try ::
  "faults \<Rightarrow> env \<Rightarrow> auth_service \<Rightarrow> (store \<Rightarrow> store) \<Rightarrow> RegisterDto \<Rightarrow> string option \<Rightarrow>
   string option \<Rightarrow> nat \<Rightarrow> string \<Rightarrow> store \<Rightarrow> (error + auth_response) \<times> store" where
  "register_try f en svc others dto ip ua now newId st =
     (case user_findUnique_email st (reg_email dto) of
        Some existingUser \<Rightarrow>
          (Inl (ConflictException ''User with this email already exists''), st)
      | None \<Rightarrow>
          (let saltRounds = config_get (BCRYPT_ROUNDS (configService svc)) 12;
               hash = bcrypt_hash en (reg_password dto) saltRounds;
               st1 = others st
           in case resolve_roleId (reg_roleId dto) st1 of
                Inl e \<Rightarrow> (Inl e, st1)
              | Inr rid \<Rightarrow>
                  (case user_create st1 newId (reg_email dto) (reg_name dto) hash rid of
                     Inl e \<Rightarrow> (Inl e, st1)
                   | Inr (lu, st2) \<Rightarrow>
                       (let st3 = logSecurityEvent f REGISTER_SUCCESS (Some (user_id (fst lu)))
                                    (Some (reg_email dto)) ip ua None st2
                        in case snd lu of
                             None \<Rightarrow> (Inl (TypeError ''Cannot read properties of undefined''), st3)
                           | Some r \<Rightarrow>
                               (let st4 = auditService_log f
                                            \<lparr> entity = ''User'', entityId = user_id (fst lu),
                                              action = ''CREATE'', actorUserId = user_id (fst lu),
                                              actorRole = role_name r,
                                              afterData = [(''email'', reg_email dto),
                                                           (''name'', reg_name dto),
                                                           (''roleId'', roleId (fst lu))],
                                              audit_ipAddress = ip, audit_userAgent = ua \<rparr> st3
                                in case generateTokenPair svc now lu of
                                     Inl e \<Rightarrow> (Inl e, st4)
                                   | Inr tokens \<Rightarrow>
                                       (Inr \<lparr> ar_user = formatUserResponse lu,
                                              ar_tokens = tokens,
                                              ar_message = ''Registration successful'' \<rparr>,
                                        st4))))))"

definition register ::
  "faults \<Rightarrow> env \<Rightarrow> auth_service \<Rightarrow> (store \<Rightarrow> store) \<Rightarrow> RegisterDto \<Rightarrow> string option \<Rightarrow>
   string option \<Rightarrow> nat \<Rightarrow> string \<Rightarrow> store \<Rightarrow> (error + auth_response) \<times> store" where
  "register f en svc others dto ip ua now newId st =
     (case register_try f en svc others dto ip ua now newId st of
        (Inl e, st') \<Rightarrow>
          (Inl e, logSecurityEvent f REGISTER_FAILED None (Some (reg_email dto)) ip ua
                    (Some (error_message e)) st')
      | (Inr res, st') \<Rightarrow> (Inr res, st'))"

text \<open>\<^verbatim>\<open>login\<close>: again the \<^verbatim>\<open>try\<close> body, then the \<^verbatim>\<open>catch\<close> handler.\<close>

definition login_try ::
  "faults \<Rightarrow> env \<Rightarrow> auth_service \<Rightarrow> LoginDto \<Rightarrow> string option \<Rightarrow> string option \<Rightarrow> nat \<Rightarrow>
   store \<Rightarrow> (error + auth_response) \<times> store" where
  "login_try f en svc dto ip ua now st =
     (case user_findUnique_email st (login_email dto) of
        None \<Rightarrow>
          (Inl (UnauthorizedException ''Invalid credentials''),
           logSecurityEvent f LOGIN_FAILED None (Some (login_email dto)) ip ua
             (Some ''User not found'') st)
      | Some u \<Rightarrow>
          if status u \<noteq> ACTIVE
          then (Inl (UnauthorizedException ''Account is inactive''),
                logSecurityEvent f LOGIN_FAILED (Some (user_id u)) (Some (login_email dto)) ip ua
                  (Some ''Account inactive'') st)
          else if \<not> bcrypt_compare en (login_password dto) (passwordHash u)
          then (Inl (UnauthorizedException ''Invalid credentials''),
                logSecurityEvent f LOGIN_FAILED (Some (user_id u)) (Some (login_email dto)) ip ua
                  (Some ''Invalid password'') st)
          else
            (let st1 = user_update st (user_id u) (\<lambda>x. x\<lparr>lastLoginAt := Some now\<rparr>);
                 st2 = logSecurityEvent f LOGIN_SUCCESS (Some (user_id u))
                         (Some (login_email dto)) ip ua None st1
             in case generateTokenPair svc now (include_role st u) of
                  Inl e \<Rightarrow> (Inl e, st2)
                | Inr tokens \<Rightarrow>
                    (Inr \<lparr> ar_user = formatUserResponse (include_role st u),
                           ar_tokens = tokens,
                           ar_message = ''Login successful'' \<rparr>,
                     st2)))"

definition login ::
  "faults \<Rightarrow> env \<Rightarrow> auth_service \<Rightarrow> LoginDto \<Rightarrow> string option \<Rightarrow> string option \<Rightarrow> nat \<Rightarrow>
   store \<Rightarrow> (error + auth_response) \<times> store" where
  "login f en svc dto ip ua now st =
     (case login_try f en svc dto ip ua now st of
        (Inl e, st') \<Rightarrow>
          if instanceof_UnauthorizedException e then (Inl e, st')
          else (Inl (UnauthorizedException ''Login failed''),
                logSecurityEvent f LOGIN_FAILED None (Some (login_email dto)) ip ua
                  (Some (error_message e)) st')
      | (Inr res, st') \<Rightarrow> (Inr res, st'))"



definition logout ::
  "faults \<Rightarrow> string \<Rightarrow> string option \<Rightarrow> string option \<Rightarrow> store \<Rightarrow> string \<times> store" where
  "logout f uid ip ua st =
     (case user_findUnique_id st uid of
        Some u \<Rightarrow>
          (''Logout successful'',
           logSecurityEvent f LOGOUT (Some uid) (Some (user_email u)) ip ua None st)
      | None \<Rightarrow> (''Logout successful'', st))"

definition changePassword ::
  "faults \<Rightarrow> env \<Rightarrow> auth_service \<Rightarrow> string \<Rightarrow> string \<Rightarrow> string \<Rightarrow> store \<Rightarrow>
   (error + string) \<times> store" where
  "changePassword f en svc uid currentPassword newPassword st =
     (case user_findUnique_id st uid of
        None \<Rightarrow> (Inl (UnauthorizedException ''User not found''), st)
      | Some u \<Rightarrow>
          if \<not> bcrypt_compare en currentPassword (passwordHash u)
          then (Inl (BadRequestException ''Current password is incorrect''), st)
          else
            (let saltRounds = config_get (BCRYPT_ROUNDS (configService svc)) 12;
                 newPasswordHash = bcrypt_hash en newPassword saltRounds;
                 st1 = user_update st uid (\<lambda>x. x\<lparr>passwordHash := newPasswordHash\<rparr>)
             in (Inr ''Password changed successfully'',
                 logSecurityEvent f PASSWORD_CHANGE (Some uid) (Some (user_email u)) None None
                   None st1)))"

text \<open>
  \<^verbatim>\<open>forgotPassword\<close>: \<open>resetToken\<close> is the value \<^verbatim>\<open>uuidv4()\<close> returned and
  \<open>now\<close> the value of \<^verbatim>\<open>Date.now()\<close>, in milliseconds.
\<close>

definition forgotPassword ::
  "faults \<Rightarrow> string \<Rightarrow> string \<Rightarrow> nat \<Rightarrow> store \<Rightarrow> string \<times> store" where
  "forgotPassword f em resetToken now st =
     (case user_findUnique_email st em of
        None \<Rightarrow> (''If the email exists, a reset link has been sent'', st)
      | Some u \<Rightarrow>
          (let resetExpires = now + 15 * 60 * 1000;
               st1 = user_update st (user_id u)
                       (\<lambda>x. x\<lparr>passwordResetToken := Some resetToken,
                              passwordResetExpires := Some resetExpires\<rparr>)
           in (''If the email exists, a reset link has been sent'',
               logSecurityEvent f PASSWORD_RESET_REQUEST (Some (user_id u)) (Some em) None None
                 None st1)))"

definition resetPassword ::
  "faults \<Rightarrow> env \<Rightarrow> auth_service \<Rightarrow> string \<Rightarrow> string \<Rightarrow> nat \<Rightarrow> store \<Rightarrow>
   (error + string) \<times> store" where
  "resetPassword f en svc token newPassword now st =
     (case user_findFirst_reset st token now of
        None \<Rightarrow> (Inl (BadRequestException ''Invalid or expired reset token''), st)
      | Some u \<Rightarrow>
          (let saltRounds = config_get (BCRYPT_ROUNDS (configService svc)) 12;
               newPasswordHash = bcrypt_hash en newPassword saltRounds;
               st1 = user_update st (user_id u)
                       (\<lambda>x. x\<lparr>passwordHash := newPasswordHash,
                              passwordResetToken := None,
                              passwordResetExpires := None\<rparr>)
           in (Inr ''Password reset successful'',
               logSecurityEvent f PASSWORD_RESET_SUCCESS (Some (user_id u))
                 (Some (user_email u)) None None None st1)))"

text \<open>
  \<^verbatim>\<open>validateUser\<close>: \<^verbatim>\<open>const { passwordHash, ...result } = user\<close> drops one key;
  \<^verbatim>\<open>null\<close> is \<open>None\<close>.
\<close>

definition validateUser :: "env \<Rightarrow> string \<Rightarrow> string \<Rightarrow> store \<Rightarrow> jsobject option" where
  "validateUser en em password st =
     (case user_findUnique_email st em of
        None \<Rightarrow> None
      | Some u \<Rightarrow>
          if status u = ACTIVE \<and> bcrypt_compare en password (passwordHash u)
          then Some (omit [''passwordHash''] (user_object (include_role st u)))
          else None)"

section \<open>Fixtures\<close>

text \<open>Concrete libraries, configuration and rows on which the operations are run.\<close>

definition demo_hash :: "string \<Rightarrow> nat \<Rightarrow> string" where
  "demo_hash p n = CHR ''#'' # p"

definition demo_compare :: "string \<Rightarrow> string \<Rightarrow> bool" where
  "demo_compare p h = (h = CHR ''#'' # p)"

definition demo_timespan :: "string \<Rightarrow> nat" where
  "demo_timespan s = (if s = ''15m'' then 900000 else 604800000)"

definition demo_env :: env where
  "demo_env = \<lparr> bcrypt_hash = demo_hash, bcrypt_compare = demo_compare,
                timespan = demo_timespan \<rparr>"

definition never_sec :: "security_log \<Rightarrow> bool" where
  "never_sec e = False"

definition never_audit :: "audit_log \<Rightarrow> bool" where
  "never_audit e = False"

definition always_sec :: "security_log \<Rightarrow> bool" where
  "always_sec e = True"

definition always_audit :: "audit_log \<Rightarrow> bool" where
  "always_audit e = True"

definition no_faults :: faults where
  "no_faults = \<lparr> securityLogFails = never_sec, auditLogFails = never_audit \<rparr>"

definition all_faults :: faults where
  "all_faults = \<lparr> securityLogFails = always_sec, auditLogFails = always_audit \<rparr>"

definition demo_config :: config where
  "demo_config = \<lparr> JWT_SECRET = Some ''a'', JWT_REFRESH_SECRET = Some ''r'',
                   JWT_EXPIRES_IN = None, JWT_REFRESH_EXPIRES_IN = None,
                   BCRYPT_ROUNDS = None \<rparr>"

definition demo_service :: auth_service where
  "demo_service = \<lparr> jwtSecret = ''a'', jwtRefreshSecret = ''r'', jwtExpiresIn = ''15m'',
                    jwtRefreshExpiresIn = ''7d'', configService = demo_config \<rparr>"

definition perm_read :: role_permission where
  "perm_read = \<lparr> permission = \<lparr> permission_id = ''p1'', key = ''p:r'' \<rparr> \<rparr>"

definition perm_write :: role_permission where
  "perm_write = \<lparr> permission = \<lparr> permission_id = ''p2'', key = ''p:w'' \<rparr> \<rparr>"

definition role_sub :: role where
  "role_sub = \<lparr> role_id = ''r1'', role_name = ''Subordinate'',
                rolePermissions = [perm_read, perm_read] \<rparr>"

definition role_admin :: role where
  "role_admin = \<lparr> role_id = ''r2'', role_name = ''Admin'',
                  rolePermissions = [perm_read, perm_write] \<rparr>"

definition alice :: user where
  "alice = \<lparr> user_id = ''u1'', user_email = ''a@x'', user_name = ''Alice'',
             passwordHash = ''#pw'', roleId = ''r1'', status = ACTIVE,
             lastLoginAt = None, passwordResetToken = Some ''t1'',
             passwordResetExpires = Some 100 \<rparr>"

definition bob :: user where
  "bob = \<lparr> user_id = ''u2'', user_email = ''b@x'', user_name = ''Bob'',
           passwordHash = ''#pw'', roleId = ''r1'', status = INACTIVE,
           lastLoginAt = None, passwordResetToken = None,
           passwordResetExpires = None \<rparr>"

definition demo_store :: store where
  "demo_store = \<lparr> users = [alice, bob], roles = [role_sub, role_admin],
                  securityLogs = [], auditLogs = [], loggerErrors = [] \<rparr>"

text \<open>The same store after an administrator has moved \<open>alice\<close> to the role \<open>Admin\<close>.\<close>

definition promoted_store :: store where
  "promoted_store = \<lparr> users = [alice\<lparr>roleId := ''r2''\<rparr>, bob], roles = [role_sub, role_admin],
                      securityLogs = [], auditLogs = [], loggerErrors = [] \<rparr>"

text \<open>A store whose role table has no role named \<open>Subordinate\<close>.\<close>

definition undefaulted_store :: store where
  "undefaulted_store = \<lparr> users = [alice, bob], roles = [role_admin],
                         securityLogs = [], auditLogs = [], loggerErrors = [] \<rparr>"

text \<open>A configuration that gives both secrets the same value.\<close>

definition shared_config :: config where
  "shared_config = \<lparr> JWT_SECRET = Some ''s'', JWT_REFRESH_SECRET = Some ''s'',
                     JWT_EXPIRES_IN = None, JWT_REFRESH_EXPIRES_IN = None,
                     BCRYPT_ROUNDS = None \<rparr>"

definition shared_service :: auth_service where
  "shared_service = \<lparr> jwtSecret = ''s'', jwtRefreshSecret = ''s'', jwtExpiresIn = ''15m'',
                      jwtRefreshExpiresIn = ''7d'', configService = shared_config \<rparr>"

definition carol_dto :: RegisterDto where
  "carol_dto = \<lparr> reg_email = ''c@x'', reg_password = ''pw'', reg_name = ''Carol'',
                 reg_roleId = None \<rparr>"


definition alice_again_dto :: RegisterDto where
  "alice_again_dto = \<lparr> reg_email = ''a@x'', reg_password = ''pw2'', reg_name = ''Alice B'',
                       reg_roleId = Some ''r2'' \<rparr>"

definition alice_refresh_token :: jwt where
  "alice_refresh_token = Jwt (RefreshClaims ''u1'' ''refresh'') ''r'' ''7d'' 0"

text \<open>A token signed with the refresh secret whose payload carries role claims of its own.\<close>

definition alice_stale_token :: jwt where
  "alice_stale_token = Jwt (AccessClaims ''u1'' ''a@x'' ''Subordinate'' [''p:r'']) ''r'' ''7d'' 0"

section \<open>Helper facts\<close>

lemmas fixture_defs = demo_env_def demo_hash_def demo_compare_def demo_timespan_def
  no_faults_def all_faults_def never_sec_def never_audit_def always_sec_def always_audit_def
  demo_config_def demo_service_def perm_read_def perm_write_def role_sub_def role_admin_def
  alice_def bob_def demo_store_def promoted_store_def undefaulted_store_def shared_config_def
  shared_service_def carol_dto_def alice_again_dto_def alice_refresh_token_def
  alice_stale_token_def

lemma users_logSecurityEvent [simp]:
  "users (logSecurityEvent f ev uid em ip ua err st) = users st"
  by (simp add: logSecurityEvent_def)

lemma roles_logSecurityEvent [simp]:
  "roles (logSecurityEvent f ev uid em ip ua err st) = roles st"
  by (simp add: logSecurityEvent_def)

lemma securityLogs_logSecurityEvent:
  "securityLogs (logSecurityEvent f ev uid em ip ua err st) =
     (if securityLogFails f (security_entry ev uid em ip ua err) then securityLogs st
      else securityLogs st @ [security_entry ev uid em ip ua err])"
  by (simp add: logSecurityEvent_def)

lemma users_auditService_log [simp]: "users (auditService_log f entry st) = users st"
  by (simp add: auditService_log_def)

lemma roles_auditService_log [simp]: "roles (auditService_log f entry st) = roles st"
  by (simp add: auditService_log_def)


lemma find_email_after_update:
  "find (\<lambda>x. user_email x = em) xs = Some u \<Longrightarrow> (\<And>x. user_email (g x) = user_email x) \<Longrightarrow>
   find (\<lambda>x. user_email x = em) (map (\<lambda>x. if user_id x = user_id u then g x else x) xs) =
     Some (g u)"
  by (induction xs) (auto split: if_splits)

lemma formatUserResponse_keys:
  "map fst (formatUserResponse lu) =
     [''id'', ''email'', ''name'', ''roleId'', ''status'', ''lastLoginAt'', ''role'',
      ''permissions'']"
  by (simp add: formatUserResponse_def omit_def user_object_def Let_def)

lemma formatUserResponse_no_secrets:
  "\<not> has_key ''passwordHash'' (formatUserResponse lu) \<and>
   \<not> has_key ''passwordResetToken'' (formatUserResponse lu) \<and>
   \<not> has_key ''passwordResetExpires'' (formatUserResponse lu)"
  by (simp add: has_key_def formatUserResponse_keys)

lemma register_user_formatted:
  "fst (register f en svc others dto ip ua now newId st) = Inr res \<Longrightarrow>
   \<not> has_key ''passwordHash'' (ar_user res) \<and>
   \<not> has_key ''passwordResetToken'' (ar_user res) \<and>
   \<not> has_key ''passwordResetExpires'' (ar_user res)"
  by (auto simp: register_def register_try_def Let_def formatUserResponse_no_secrets
      split: option.splits sum.splits prod.splits if_splits)

lemma login_user_formatted:
  "fst (login f en svc dto ip ua now st) = Inr res \<Longrightarrow>
   \<not> has_key ''passwordHash'' (ar_user res) \<and>
   \<not> has_key ''passwordResetToken'' (ar_user res) \<and>
   \<not> has_key ''passwordResetExpires'' (ar_user res)"
  by (auto simp: login_def login_try_def Let_def formatUserResponse_no_secrets
      split: option.splits sum.splits prod.splits if_splits)



lemma register_faults:
  "fst (register f en svc others dto ip ua now newId st) =
     fst (register g en svc others dto ip ua now newId st) \<and>
   users (snd (register f en svc others dto ip ua now newId st)) =
     users (snd (register g en svc others dto ip ua now newId st))"
  by (simp add: register_def register_try_def Let_def
      split: option.splits sum.splits prod.splits)

lemma login_faults:
  "fst (login f en svc dto ip ua now st) = fst (login g en svc dto ip ua now st) \<and>
   users (snd (login f en svc dto ip ua now st)) = users (snd (login g en svc dto ip ua now st))"
  by (simp add: login_def login_try_def Let_def user_update_def
      split: option.splits sum.splits prod.splits)

lemma logout_faults:
  "fst (logout f uid ip ua st) = fst (logout g uid ip ua st) \<and>
   users (snd (logout f uid ip ua st)) = users (snd (logout g uid ip ua st))"
  by (simp add: logout_def split: option.splits)

lemma changePassword_faults:
  "fst (changePassword f en svc uid cur new st) = fst (changePassword g en svc uid cur new st) \<and>
   users (snd (changePassword f en svc uid cur new st)) =
     users (snd (changePassword g en svc uid cur new st))"
  by (simp add: changePassword_def Let_def user_update_def split: option.splits)

lemma forgotPassword_faults:
  "fst (forgotPassword f em tok now st) = fst (forgotPassword g em tok now st) \<and>
   users (snd (forgotPassword f em tok now st)) = users (snd (forgotPassword g em tok now st))"
  by (simp add: forgotPassword_def Let_def user_update_def split: option.splits)

lemma resetPassword_faults:
  "fst (resetPassword f en svc tok pw now st) = fst (resetPassword g en svc tok pw now st) \<and>
   users (snd (resetPassword f en svc tok pw now st)) =
     users (snd (resetPassword g en svc tok pw now st))"
  by (simp add: resetPassword_def Let_def user_update_def split: option.splits)

section \<open>Login\<close>




text \<open>
  Claim C10. On each failure path of \<open>login\<close> that comes before a successful password
  check (no user with the email, a status other than \<open>ACTIVE\<close>, a password that does
  not verify) the user table after the call is the user table before it. When the
  user is found, active and the password verifies, the rows with that user's id get
  \<open>lastLoginAt = Some now\<close> and nothing else changes.
\<close>

theorem login_failure_preserves_users:
  "(user_findUnique_email st (login_email dto) = None \<longrightarrow>
      users (snd (login f en svc dto ip ua now st)) = users st) \<and>
   (user_findUnique_email st (login_email dto) = Some u \<and> status u \<noteq> ACTIVE \<longrightarrow>
      users (snd (login f en svc dto ip ua now st)) = users st) \<and>
   (user_findUnique_email st (login_email dto) = Some u \<and>
      \<not> bcrypt_compare en (login_password dto) (passwordHash u) \<longrightarrow>
      users (snd (login f en svc dto ip ua now st)) = users st) \<and>
   (user_findUnique_email st (login_email dto) = Some u \<and> status u = ACTIVE \<and>
      bcrypt_compare en (login_password dto) (passwordHash u) \<longrightarrow>
      users (snd (login f en svc dto ip ua now st)) =
        map (\<lambda>x. if user_id x = user_id u then x\<lparr>lastLoginAt := Some now\<rparr> else x) (users st))"
  by (simp add: login_def login_try_def user_update_def Let_def split: sum.splits)

theorem login_failure_preserves_users_witness:
  "user_findUnique_email demo_store ''z@x'' = None \<and>
   users (snd (login no_faults demo_env demo_service
      \<lparr>login_email = ''z@x'', login_password = ''pw''\<rparr> None None 5 demo_store)) = [alice, bob] \<and>
   (user_findUnique_email demo_store ''b@x'' = Some bob \<and> status bob \<noteq> ACTIVE) \<and>
   users (snd (login no_faults demo_env demo_service
      \<lparr>login_email = ''b@x'', login_password = ''pw''\<rparr> None None 5 demo_store)) = [alice, bob] \<and>
   (user_findUnique_email demo_store ''a@x'' = Some alice \<and>
    \<not> bcrypt_compare demo_env ''no'' (passwordHash alice)) \<and>
   users (snd (login no_faults demo_env demo_service
      \<lparr>login_email = ''a@x'', login_password = ''no''\<rparr> None None 5 demo_store)) = [alice, bob] \<and>
   (status alice = ACTIVE \<and> bcrypt_compare demo_env ''pw'' (passwordHash alice)) \<and>
   users (snd (login no_faults demo_env demo_service
      \<lparr>login_email = ''a@x'', login_password = ''pw''\<rparr> None None 5 demo_store)) =
     [alice\<lparr>lastLoginAt := Some 5\<rparr>, bob]"
  using login_failure_preserves_users
          [of demo_store "\<lparr>login_email = ''z@x'', login_password = ''pw''\<rparr>" no_faults demo_env
              demo_service None None 5 alice]
        login_failure_preserves_users
          [of demo_store "\<lparr>login_email = ''b@x'', login_password = ''pw''\<rparr>" no_faults demo_env
              demo_service None None 5 bob]
        login_failure_preserves_users
          [of demo_store "\<lparr>login_email = ''a@x'', login_password = ''no''\<rparr>" no_faults demo_env
              demo_service None None 5 alice]
        login_failure_preserves_users
          [of demo_store "\<lparr>login_email = ''a@x'', login_password = ''pw''\<rparr>" no_faults demo_env
              demo_service None None 5 alice]
  by (simp add: user_findUnique_email_def fixture_defs)

section \<open>Password reset\<close>



section \<open>Token refresh\<close>



section \<open>Token issuance\<close>




section \<open>Password-reset request\<close>

text \<open>
  Claim C6. \<open>forgotPassword\<close> returns one and the same message for every input. With
  no user for the email the store is returned as it was. With a user \<open>u\<close>, the rows
  with the id of \<open>u\<close> get the generated token and the expiry \<open>now + 900000\<close>
  milliseconds (15 minutes), the user looked up again by the email carries both, and
  a \<open>PASSWORD_RESET_REQUEST\<close> entry is handed to the security log (appended unless the
  log write fails). The token is the value \<^verbatim>\<open>uuidv4()\<close> returned, an input here.
\<close>

theorem forgotPassword_contract:
  "fst (forgotPassword f em tok now st) = ''If the email exists, a reset link has been sent'' \<and>
   (user_findUnique_email st em = None \<longrightarrow> snd (forgotPassword f em tok now st) = st) \<and>
   (user_findUnique_email st em = Some u \<longrightarrow>
      users (snd (forgotPassword f em tok now st)) =
        map (\<lambda>x. if user_id x = user_id u
                  then x\<lparr>passwordResetToken := Some tok,
                         passwordResetExpires := Some (now + 900000)\<rparr>
                  else x) (users st) \<and>
      user_findUnique_email (snd (forgotPassword f em tok now st)) em =
        Some (u\<lparr>passwordResetToken := Some tok, passwordResetExpires := Some (now + 900000)\<rparr>) \<and>
      securityLogs (snd (forgotPassword f em tok now st)) =
        (if securityLogFails f
              (security_entry PASSWORD_RESET_REQUEST (Some (user_id u)) (Some em) None None None)
         then securityLogs st
         else securityLogs st @
              [security_entry PASSWORD_RESET_REQUEST (Some (user_id u)) (Some em) None None None]))"
  by (auto simp: forgotPassword_def Let_def securityLogs_logSecurityEvent user_update_def
          user_findUnique_email_def find_email_after_update
        split: option.splits)

theorem forgotPassword_contract_witness:
  "fst (forgotPassword no_faults ''z@x'' ''tk'' 50 demo_store) =
     fst (forgotPassword no_faults ''a@x'' ''tk'' 50 demo_store) \<and>
   user_findUnique_email demo_store ''z@x'' = None \<and>
   snd (forgotPassword no_faults ''z@x'' ''tk'' 50 demo_store) = demo_store \<and>
   user_findUnique_email demo_store ''a@x'' = Some alice \<and>
   users (snd (forgotPassword no_faults ''a@x'' ''tk'' 50 demo_store)) =
     [alice\<lparr>passwordResetToken := Some ''tk'', passwordResetExpires := Some 900050\<rparr>, bob] \<and>
   map event (securityLogs (snd (forgotPassword no_faults ''a@x'' ''tk'' 50 demo_store))) =
     [PASSWORD_RESET_REQUEST]"
  using forgotPassword_contract [of no_faults "''z@x''" "''tk''" 50 demo_store alice]
        forgotPassword_contract [of no_faults "''a@x''" "''tk''" 50 demo_store alice]
  by (simp add: user_findUnique_email_def security_entry_def fixture_defs)

section \<open>Registration\<close>







section \<open>Response shaping\<close>

text \<open>
  Claim C7, as the code has it. The user object in every successful answer of
  \<open>register\<close> and of \<open>login\<close> has none of the keys \<open>passwordHash\<close>,
  \<open>passwordResetToken\<close> and \<open>passwordResetExpires\<close>. What \<open>validateUser\<close> returns has
  no \<open>passwordHash\<close>; it still has \<open>passwordResetToken\<close> and
  \<open>passwordResetExpires\<close>, with the values stored for the user.
\<close>

theorem user_responses_strip_secrets:
  "(fst (register f en svc others rdto ip ua now newId st) = Inr res \<longrightarrow>
      \<not> has_key ''passwordHash'' (ar_user res) \<and>
      \<not> has_key ''passwordResetToken'' (ar_user res) \<and>
      \<not> has_key ''passwordResetExpires'' (ar_user res)) \<and>
   (fst (login f en svc ldto ip ua now st) = Inr res' \<longrightarrow>
      \<not> has_key ''passwordHash'' (ar_user res') \<and>
      \<not> has_key ''passwordResetToken'' (ar_user res') \<and>
      \<not> has_key ''passwordResetExpires'' (ar_user res')) \<and>
   (validateUser en em pw st = Some obj \<longrightarrow>
      \<not> has_key ''passwordHash'' obj \<and>
      (\<exists>u. user_findUnique_email st em = Some u \<and>
         map_of obj ''passwordResetToken'' = Some (nullable JString (passwordResetToken u)) \<and>
         map_of obj ''passwordResetExpires'' = Some (nullable JDate (passwordResetExpires u))))"
proof -
  have v: "\<not> has_key ''passwordHash'' obj \<and>
      (\<exists>u. user_findUnique_email st em = Some u \<and>
         map_of obj ''passwordResetToken'' = Some (nullable JString (passwordResetToken u)) \<and>
         map_of obj ''passwordResetExpires'' = Some (nullable JDate (passwordResetExpires u)))"
    if "validateUser en em pw st = Some obj"
    using that
    by (auto simp: validateUser_def has_key_def omit_def user_object_def include_role_def
        split: option.splits if_splits)
  show ?thesis
    using v register_user_formatted [of f en svc others rdto ip ua now newId st res]
      login_user_formatted [of f en svc ldto ip ua now st res']
    by blast
qed

theorem user_responses_strip_secrets_witness:
  "(\<exists>res. fst (register no_faults demo_env demo_service id carol_dto None None 5 ''u3''
              demo_store) = Inr res \<and>
      \<not> has_key ''passwordHash'' (ar_user res) \<and>
      \<not> has_key ''passwordResetToken'' (ar_user res) \<and>
      \<not> has_key ''passwordResetExpires'' (ar_user res)) \<and>
   (\<exists>res. fst (login no_faults demo_env demo_service
              \<lparr>login_email = ''a@x'', login_password = ''pw''\<rparr> None None 5 demo_store) =
              Inr res \<and>
      \<not> has_key ''passwordHash'' (ar_user res) \<and>
      \<not> has_key ''passwordResetToken'' (ar_user res) \<and>
      \<not> has_key ''passwordResetExpires'' (ar_user res)) \<and>
   (\<exists>obj. validateUser demo_env ''a@x'' ''pw'' demo_store = Some obj \<and>
      \<not> has_key ''passwordHash'' obj \<and>
      map_of obj ''passwordResetToken'' = Some (JString ''t1'') \<and>
      map_of obj ''passwordResetExpires'' = Some (JDate 100))"
proof -
  obtain res where res: "fst (register no_faults demo_env demo_service id carol_dto None None 5
      ''u3'' demo_store) = Inr res"
    by (simp add: register_def register_try_def Let_def user_create_def
        user_findUnique_email_def getDefaultRoleId_def role_findFirst_name_def
        role_findUnique_id_def generateTokenPair_def fixture_defs)
  obtain res' where res': "fst (login no_faults demo_env demo_service
      \<lparr>login_email = ''a@x'', login_password = ''pw''\<rparr> None None 5 demo_store) = Inr res'"
    by (simp add: login_def login_try_def Let_def user_findUnique_email_def include_role_def
        role_findUnique_id_def generateTokenPair_def fixture_defs)
  obtain obj where obj: "validateUser demo_env ''a@x'' ''pw'' demo_store = Some obj"
    by (simp add: validateUser_def user_findUnique_email_def fixture_defs)
  have found: "user_findUnique_email demo_store ''a@x'' = Some alice"
    by (simp add: user_findUnique_email_def fixture_defs)
  have stored: "passwordResetToken alice = Some ''t1''" "passwordResetExpires alice = Some 100"
    by (simp_all add: alice_def)
  from user_responses_strip_secrets
         [where f = no_faults and en = demo_env and svc = demo_service and others = id
            and rdto = carol_dto and ip = None and ua = None and now = 5 and newId = "''u3''"
            and st = demo_store and res = res
            and ldto = "\<lparr>login_email = ''a@x'', login_password = ''pw''\<rparr>" and res' = res'
            and em = "''a@x''" and pw = "''pw''" and obj = obj]
       res res' obj found stored
  show ?thesis by auto
qed

text \<open>
  The claim as written has \<open>validateUser\<close> return an object with none of the three
  secret fields. For \<open>alice\<close>, who has a reset pending, the object returned has both
  reset fields.
\<close>

theorem validateUser_keeps_reset_token_counterexample:
  "map_option (has_key ''passwordResetToken'') (validateUser demo_env ''a@x'' ''pw'' demo_store) =
     Some True \<and>
   map_option (has_key ''passwordResetExpires'') (validateUser demo_env ''a@x'' ''pw'' demo_store) =
     Some True"
  by (simp add: validateUser_def has_key_def omit_def user_object_def include_role_def
      user_findUnique_email_def fixture_defs)

section \<open>Containment of logging failures\<close>

text \<open>
  Claim C9. For each operation that writes a log (\<open>register\<close>, \<open>login\<close>, \<open>logout\<close>,
  \<open>changePassword\<close>, \<open>forgotPassword\<close>, \<open>resetPassword\<close>), whatever log writes fail, the
  value returned and the user table afterwards are what they are under any other
  pattern of failing log writes, a fully working log included: a failed log write never
  turns a success into a failure and is never rethrown. \<open>refreshToken\<close> and
  \<open>validateUser\<close> write no log. The security-event writes are contained by
  \<open>logSecurityEvent\<close> itself; \<open>register\<close> awaits the audit write with no handler of its
  own, so for the audit trail the statement rests on \<open>auditService_log\<close> as modelled
  above.
\<close>

theorem logging_failures_contained:
  "fst (register f en svc others rdto ip ua now newId st) =
     fst (register g en svc others rdto ip ua now newId st) \<and>
   users (snd (register f en svc others rdto ip ua now newId st)) =
     users (snd (register g en svc others rdto ip ua now newId st)) \<and>
   fst (login f en svc ldto ip ua now st) = fst (login g en svc ldto ip ua now st) \<and>
   users (snd (login f en svc ldto ip ua now st)) =
     users (snd (login g en svc ldto ip ua now st)) \<and>
   fst (logout f uid ip ua st) = fst (logout g uid ip ua st) \<and>
   users (snd (logout f uid ip ua st)) = users (snd (logout g uid ip ua st)) \<and>
   fst (changePassword f en svc uid cur new st) = fst (changePassword g en svc uid cur new st) \<and>
   users (snd (changePassword f en svc uid cur new st)) =
     users (snd (changePassword g en svc uid cur new st)) \<and>
   fst (forgotPassword f em tok now st) = fst (forgotPassword g em tok now st) \<and>
   users (snd (forgotPassword f em tok now st)) = users (snd (forgotPassword g em tok now st)) \<and>
   fst (resetPassword f en svc tok pw now st) = fst (resetPassword g en svc tok pw now st) \<and>
   users (snd (resetPassword f en svc tok pw now st)) =
     users (snd (resetPassword g en svc tok pw now st))"
  using register_faults [of f en svc others rdto ip ua now newId st g]
    login_faults [of f en svc ldto ip ua now st g]
    logout_faults [of f uid ip ua st g]
    changePassword_faults [of f en svc uid cur new st g]
    forgotPassword_faults [of f em tok now st g]
    resetPassword_faults [of f en svc tok pw now st g]
  by simp

text \<open>
  On the fixtures, with every log write failing: \<open>carol\<close> is registered and \<open>alice\<close>
  logs in as with a working log, nothing reaches the security log or the audit trail,
  and the failed security-event write leaves a line in the service's own logger.
\<close>

theorem logging_failures_contained_witness:
  "(\<exists>res. fst (login all_faults demo_env demo_service
              \<lparr>login_email = ''a@x'', login_password = ''pw''\<rparr> None None 5 demo_store) =
              Inr res \<and> ar_message res = ''Login successful'') \<and>
   (\<exists>res. fst (register all_faults demo_env demo_service id carol_dto None None 5 ''u3''
              demo_store) = Inr res \<and> ar_message res = ''Registration successful'') \<and>
   securityLogs (snd (register all_faults demo_env demo_service id carol_dto None None 5 ''u3''
              demo_store)) = [] \<and>
   auditLogs (snd (register all_faults demo_env demo_service id carol_dto None None 5 ''u3''
              demo_store)) = [] \<and>
   loggerErrors (snd (register all_faults demo_env demo_service id carol_dto None None 5 ''u3''
              demo_store)) = [''Failed to log security event:'']"
proof -
  have l: "\<exists>res. fst (login no_faults demo_env demo_service
              \<lparr>login_email = ''a@x'', login_password = ''pw''\<rparr> None None 5 demo_store) =
              Inr res \<and> ar_message res = ''Login successful''"
    by (simp add: login_def login_try_def Let_def user_findUnique_email_def include_role_def
        role_findUnique_id_def generateTokenPair_def fixture_defs)
  have r: "\<exists>res. fst (register no_faults demo_env demo_service id carol_dto None None 5 ''u3''
              demo_store) = Inr res \<and> ar_message res = ''Registration successful''"
    by (simp add: register_def register_try_def Let_def user_create_def
        user_findUnique_email_def getDefaultRoleId_def role_findFirst_name_def
        role_findUnique_id_def generateTokenPair_def fixture_defs)
  have logs: "securityLogs (snd (register all_faults demo_env demo_service id carol_dto None None
                 5 ''u3'' demo_store)) = []"
    "auditLogs (snd (register all_faults demo_env demo_service id carol_dto None None
                 5 ''u3'' demo_store)) = []"
    "loggerErrors (snd (register all_faults demo_env demo_service id carol_dto None None
                 5 ''u3'' demo_store)) =
       [''Failed to log security event:'']"
    by (simp_all add: register_def register_try_def Let_def user_create_def
        user_findUnique_email_def getDefaultRoleId_def role_findFirst_name_def
        role_findUnique_id_def generateTokenPair_def logSecurityEvent_def auditService_log_def
        fixture_defs)
  from logging_failures_contained
         [where f = all_faults and g = no_faults and en = demo_env and svc = demo_service
            and others = id and rdto = carol_dto and ip = None and ua = None and now = 5
            and newId = "''u3''" and st = demo_store
            and ldto = "\<lparr>login_email = ''a@x'', login_password = ''pw''\<rparr>"]
       l r logs
  show ?thesis by simp
qed

end
